theory Spec2Isabelle
  imports Complex_Main "HOL-Library.Product_Lexorder"
begin

section \<open>Python values shared by the two scripts\<close>

text \<open>
  Exceptions are values. Only the exception classes that the two scripts can meet on the
  paths modelled here are listed.
\<close>

datatype py_error =
    ValueError | KeyError | TypeError | AttributeError | IndexError | OSError
  | UnboundLocalError | OperationalError | DatabaseError

text \<open>
  A row produced by \<^verbatim>\<open>csv.DictReader\<close>: an ordered dictionary from column name to
  cell text. \<^verbatim>\<open>row[key]\<close> is \<open>map_of row key\<close>, and a missing key raises KeyError.
  The model covers files whose data lines have one cell per header column (for shorter
  lines DictReader pads with None, which is not modelled).
\<close>

type_synonym csv_row = "(string \<times> string) list"

section \<open>scripts/fetch\_weather.py: load\_outlets\<close>

record outlet =
  o_id :: int
  o_name :: string
  o_latitude :: real
  o_longitude :: real

text \<open>
  Python's \<^verbatim>\<open>int()\<close> and \<^verbatim>\<open>float()\<close> are library functions; they are parameters
  \<open>pyint\<close> and \<open>pyfloat\<close> of the model, with \<open>None\<close> for a ValueError. Floats are
  modelled as reals: the code only compares them with \<open>0.0\<close> and stores them.

  \<^verbatim>\<open>outlet_id = int(row['id'])\<close>
\<close>

definition row_id :: "(string \<Rightarrow> int option) \<Rightarrow> csv_row \<Rightarrow> py_error + int" where
  "row_id pyint row =
     (case map_of row ''id'' of
        None \<Rightarrow> Inl KeyError
      | Some s \<Rightarrow> (case pyint s of None \<Rightarrow> Inl ValueError | Some n \<Rightarrow> Inr n))"

text \<open>\<^verbatim>\<open>float(row[key]) if row[key] else 0.0\<close>\<close>

definition coord :: "(string \<Rightarrow> real option) \<Rightarrow> csv_row \<Rightarrow> string \<Rightarrow> py_error + real" where
  "coord pyfloat row key =
     (case map_of row key of
        None \<Rightarrow> Inl KeyError
      | Some s \<Rightarrow>
          if s = [] then Inr 0
          else (case pyfloat s of None \<Rightarrow> Inl ValueError | Some x \<Rightarrow> Inr x))"

text \<open>
  One iteration of the \<^verbatim>\<open>for row in reader\<close> loop. The dictionary \<^verbatim>\<open>outlets\<close> keeps
  insertion order, so it is an association list that grows at the end.
\<close>

definition load_outlets_step ::
  "(string \<Rightarrow> int option) \<Rightarrow> (string \<Rightarrow> real option) \<Rightarrow>
   (int \<times> outlet) list \<Rightarrow> csv_row \<Rightarrow> py_error + (int \<times> outlet) list" where
  "load_outlets_step pyint pyfloat outlets row =
     (case row_id pyint row of
        Inl e \<Rightarrow> Inl e
      | Inr outlet_id \<Rightarrow>
     (case coord pyfloat row ''latitude'' of
        Inl e \<Rightarrow> Inl e
      | Inr lat \<Rightarrow>
     (case coord pyfloat row ''longitude'' of
        Inl e \<Rightarrow> Inl e
      | Inr lon \<Rightarrow>
          if lat = 0 \<and> lon = 0 then Inr outlets
          else if map_of outlets outlet_id \<noteq> None then Inr outlets
          else
            (case map_of row ''name'' of
               None \<Rightarrow> Inl KeyError
             | Some nm \<Rightarrow>
                 Inr (outlets @
                   [(outlet_id,
                     \<lparr>o_id = outlet_id, o_name = nm, o_latitude = lat, o_longitude = lon\<rparr>)])))))"

fun load_outlets_loop ::
  "(string \<Rightarrow> int option) \<Rightarrow> (string \<Rightarrow> real option) \<Rightarrow>
   (int \<times> outlet) list \<Rightarrow> csv_row list \<Rightarrow> py_error + (int \<times> outlet) list" where
  "load_outlets_loop pyint pyfloat outlets [] = Inr outlets"
| "load_outlets_loop pyint pyfloat outlets (row # rows) =
     (case load_outlets_step pyint pyfloat outlets row of
        Inl e \<Rightarrow> Inl e
      | Inr outlets' \<Rightarrow> load_outlets_loop pyint pyfloat outlets' rows)"

text \<open>\<^verbatim>\<open>return list(outlets.values())\<close>\<close>

definition load_outlets ::
  "(string \<Rightarrow> int option) \<Rightarrow> (string \<Rightarrow> real option) \<Rightarrow> csv_row list \<Rightarrow>
   py_error + outlet list" where
  "load_outlets pyint pyfloat rows =
     (case load_outlets_loop pyint pyfloat [] rows of
        Inl e \<Rightarrow> Inl e
      | Inr outlets \<Rightarrow> Inr (map snd outlets))"

subsection \<open>Vocabulary for the catalog claims\<close>

text \<open>The row bears the id \<open>k\<close>.\<close>

definition bears :: "(string \<Rightarrow> int option) \<Rightarrow> int \<Rightarrow> csv_row \<Rightarrow> bool" where
  "bears pyint k row = (row_id pyint row = Inr k)"

text \<open>The row's coordinates parse and are not the sentinel \<open>(0.0, 0.0)\<close>.\<close>

definition located :: "(string \<Rightarrow> real option) \<Rightarrow> csv_row \<Rightarrow> bool" where
  "located pyfloat row =
     (case coord pyfloat row ''latitude'' of
        Inl e \<Rightarrow> False
      | Inr lat \<Rightarrow>
          (case coord pyfloat row ''longitude'' of
             Inl e \<Rightarrow> False
           | Inr lon \<Rightarrow> \<not> (lat = 0 \<and> lon = 0)))"

text \<open>The row's coordinates parse and are the sentinel \<open>(0.0, 0.0)\<close>.\<close>

definition sentinel :: "(string \<Rightarrow> real option) \<Rightarrow> csv_row \<Rightarrow> bool" where
  "sentinel pyfloat row =
     (coord pyfloat row ''latitude'' = Inr 0 \<and> coord pyfloat row ''longitude'' = Inr 0)"

text \<open>The outlet a row describes, when all four of its columns can be read.\<close>

definition outlet_of_row ::
  "(string \<Rightarrow> int option) \<Rightarrow> (string \<Rightarrow> real option) \<Rightarrow> csv_row \<Rightarrow> outlet option" where
  "outlet_of_row pyint pyfloat row =
     (case row_id pyint row of
        Inl e \<Rightarrow> None
      | Inr i \<Rightarrow>
     (case coord pyfloat row ''latitude'' of
        Inl e \<Rightarrow> None
      | Inr lat \<Rightarrow>
     (case coord pyfloat row ''longitude'' of
        Inl e \<Rightarrow> None
      | Inr lon \<Rightarrow>
     (case map_of row ''name'' of
        None \<Rightarrow> None
      | Some nm \<Rightarrow>
          Some \<lparr>o_id = i, o_name = nm, o_latitude = lat, o_longitude = lon\<rparr>))))"

text \<open>
  Stand-ins for \<^verbatim>\<open>int()\<close> and \<^verbatim>\<open>float()\<close> on the literals of the worked scenarios;
  they agree with Python on every string they accept.
\<close>

definition scenario_int :: "string \<Rightarrow> int option" where
  "scenario_int s =
     (if s = ''1'' then Some 1 else if s = ''2'' then Some 2 else None)"

definition scenario_float :: "string \<Rightarrow> real option" where
  "scenario_float s =
     (if s = ''40.0'' then Some 40
      else if s = ''-75.0'' then Some (- 75)
      else if s = ''41.0'' then Some 41
      else if s = ''-76.0'' then Some (- 76)
      else if s = ''0.0'' then Some 0
      else None)"

definition mk_row :: "string \<Rightarrow> string \<Rightarrow> string \<Rightarrow> string \<Rightarrow> csv_row" where
  "mk_row i nm lat lon =
     [(''id'', i), (''name'', nm), (''latitude'', lat), (''longitude'', lon)]"

text \<open>The loop invariant of \<open>load_outlets_loop\<close> on the dictionary it builds.\<close>

definition wf_outlets :: "(int \<times> outlet) list \<Rightarrow> bool" where
  "wf_outlets acc =
     (distinct (map fst acc) \<and>
      list_all (\<lambda>(k, out). o_id out = k \<and> \<not> (o_latitude out = 0 \<and> o_longitude out = 0)) acc)"

section \<open>scripts/fetch\_weather.py: parse\_weather\_data\<close>

text \<open>
  JSON values as \<^verbatim>\<open>response.json()\<close> decodes them. The response is a JSON object
  whose optional \<^verbatim>\<open>hourly\<close> member is an object of arrays (the documented shape of
  the Open-Meteo response); the elements of the arrays are arbitrary JSON values.
\<close>

datatype json =
    JNull | JBool bool | JNum real | JStr string
  | JArr "json list" | JObj "(string \<times> json) list"

record response =
  hourly :: "(string \<times> json list) list option"

record weather_record =
  outlet_id :: int
  outlet_name :: string
  latitude :: real
  longitude :: real
  time :: json
  wind_speed_10m :: json
  temperature_2m :: json
  relative_humidity_2m :: json

text \<open>\<^verbatim>\<open>hourly.get(key, [])\<close>\<close>

definition hourly_get :: "(string \<times> json list) list \<Rightarrow> string \<Rightarrow> json list" where
  "hourly_get h key = (case map_of h key of None \<Rightarrow> [] | Some xs \<Rightarrow> xs)"

text \<open>\<^verbatim>\<open>xs[i]\<close> for \<open>i \<ge> 0\<close>: out of range raises IndexError.\<close>

definition py_index :: "'a list \<Rightarrow> nat \<Rightarrow> py_error + 'a" where
  "py_index xs i = (if i < length xs then Inr (xs ! i) else Inl IndexError)"

text \<open>\<^verbatim>\<open>time_str.replace('Z', '')\<close>\<close>

definition strip_Z :: "string \<Rightarrow> string" where
  "strip_Z s = filter (\<lambda>c. c \<noteq> CHR ''Z'') s"

text \<open>
  \<^verbatim>\<open>datetime.fromisoformat(time_str.replace('Z', ''))\<close>. The library parser is the
  parameter \<open>fromisoformat\<close> (\<open>None\<close> for a ValueError); a value that is not a string
  has no \<^verbatim>\<open>replace\<close> and raises AttributeError. Datetimes are values of a linear
  order \<open>'t\<close>: the window bounds come from \<^verbatim>\<open>datetime.now()\<close> and the API's local
  timestamps carry no offset, so all of them are naive and mutually comparable.
\<close>

definition parse_time :: "(string \<Rightarrow> 't option) \<Rightarrow> json \<Rightarrow> py_error + 't" where
  "parse_time fromisoformat time_str =
     (case time_str of
        JStr s \<Rightarrow>
          (case fromisoformat (strip_Z s) of None \<Rightarrow> Inl ValueError | Some t \<Rightarrow> Inr t)
      | _ \<Rightarrow> Inl AttributeError)"

text \<open>\<^verbatim>\<open>xs[i] if i < len(xs) else None\<close>\<close>

definition measurement_at :: "json list \<Rightarrow> nat \<Rightarrow> py_error + json" where
  "measurement_at xs i = (if i < length xs then py_index xs i else Inr JNull)"

text \<open>
  The body of \<^verbatim>\<open>for i in range(len(times))\<close>: \<open>Inr None\<close> when nothing is appended
  (the timestamp failed to parse, which the \<^verbatim>\<open>except (ValueError, AttributeError)\<close>
  clause swallows, or it lies outside the window), \<open>Inr (Some r)\<close> when \<open>r\<close> is
  appended, \<open>Inl e\<close> for an exception that the clause does not catch.
\<close>

definition parse_weather_step ::
  "(string \<Rightarrow> ('t::linorder) option) \<Rightarrow> outlet \<Rightarrow> 't \<Rightarrow> 't \<Rightarrow>
   json list \<Rightarrow> json list \<Rightarrow> json list \<Rightarrow> json list \<Rightarrow> nat \<Rightarrow>
   py_error + weather_record option" where
  "parse_weather_step fromisoformat outlet start_date end_date
       times' wind_speeds temperatures humidities i =
     (case py_index times' i of
        Inl e \<Rightarrow> Inl e
      | Inr time_str \<Rightarrow>
     (case parse_time fromisoformat time_str of
        Inl e \<Rightarrow> Inr None
      | Inr time_dt \<Rightarrow>
          if start_date \<le> time_dt \<and> time_dt \<le> end_date then
            (case py_index times' i of
               Inl e \<Rightarrow> Inl e
             | Inr t \<Rightarrow>
            (case measurement_at wind_speeds i of
               Inl e \<Rightarrow> Inl e
             | Inr w \<Rightarrow>
            (case measurement_at temperatures i of
               Inl e \<Rightarrow> Inl e
             | Inr tp \<Rightarrow>
            (case measurement_at humidities i of
               Inl e \<Rightarrow> Inl e
             | Inr hm \<Rightarrow>
                 Inr (Some \<lparr>outlet_id = o_id outlet, outlet_name = o_name outlet,
                            latitude = o_latitude outlet, longitude = o_longitude outlet,
                            time = t, wind_speed_10m = w, temperature_2m = tp,
                            relative_humidity_2m = hm\<rparr>)))))
          else Inr None))"

fun parse_weather_loop ::
  "(nat \<Rightarrow> py_error + weather_record option) \<Rightarrow> nat list \<Rightarrow> weather_record list \<Rightarrow>
   py_error + weather_record list" where
  "parse_weather_loop body [] records = Inr records"
| "parse_weather_loop body (i # rest) records =
     (case body i of
        Inl e \<Rightarrow> Inl e
      | Inr None \<Rightarrow> parse_weather_loop body rest records
      | Inr (Some r) \<Rightarrow> parse_weather_loop body rest (records @ [r]))"

text \<open>
  \<open>weather_json\<close> is \<open>None\<close> for Python's \<^verbatim>\<open>None\<close>; an object without
  \<^verbatim>\<open>"hourly"\<close> (the empty object included) has \<open>hourly = None\<close>.
\<close>

definition parse_weather_data ::
  "(string \<Rightarrow> ('t::linorder) option) \<Rightarrow> response option \<Rightarrow> outlet \<Rightarrow> 't \<Rightarrow> 't \<Rightarrow>
   py_error + weather_record list" where
  "parse_weather_data fromisoformat weather_json outlet start_date end_date =
     (case weather_json of
        None \<Rightarrow> Inr []
      | Some w \<Rightarrow>
     (case hourly w of
        None \<Rightarrow> Inr []
      | Some h \<Rightarrow>
          (let times' = hourly_get h ''time'';
               wind_speeds = hourly_get h ''wind_speed_10m'';
               temperatures = hourly_get h ''temperature_2m'';
               humidities = hourly_get h ''relative_humidity_2m''
           in parse_weather_loop
                (parse_weather_step fromisoformat outlet start_date end_date
                   times' wind_speeds temperatures humidities)
                [0..<length times'] [])))"

subsection \<open>Vocabulary for the window claims\<close>

text \<open>The array of the response under a key of its hourly section; empty when absent.\<close>

definition hourly_array :: "response option \<Rightarrow> string \<Rightarrow> json list" where
  "hourly_array weather_json key =
     (case weather_json of
        None \<Rightarrow> []
      | Some w \<Rightarrow> (case hourly w of None \<Rightarrow> [] | Some h \<Rightarrow> hourly_get h key))"

text \<open>The timestamp parses and lies in the closed window.\<close>

definition in_window :: "(string \<Rightarrow> ('t::linorder) option) \<Rightarrow> 't \<Rightarrow> 't \<Rightarrow> json \<Rightarrow> bool" where
  "in_window fromisoformat start_date end_date time_str =
     (case parse_time fromisoformat time_str of
        Inl e \<Rightarrow> False
      | Inr t \<Rightarrow> start_date \<le> t \<and> t \<le> end_date)"

text \<open>A measurement array read at an index, null where the array does not reach it.\<close>

definition measurement :: "json list \<Rightarrow> nat \<Rightarrow> json" where
  "measurement xs i = (if i < length xs then xs ! i else JNull)"

text \<open>The record expected for index \<open>i\<close> of the time array.\<close>

definition record_for :: "outlet \<Rightarrow> response option \<Rightarrow> nat \<Rightarrow> weather_record" where
  "record_for outlet weather_json i =
     \<lparr>outlet_id = o_id outlet, outlet_name = o_name outlet,
      latitude = o_latitude outlet, longitude = o_longitude outlet,
      time = hourly_array weather_json ''time'' ! i,
      wind_speed_10m = measurement (hourly_array weather_json ''wind_speed_10m'') i,
      temperature_2m = measurement (hourly_array weather_json ''temperature_2m'') i,
      relative_humidity_2m =
        measurement (hourly_array weather_json ''relative_humidity_2m'') i\<rparr>"

text \<open>The indices of the time array for which a record is expected, in order.\<close>

definition emitted_indices ::
  "(string \<Rightarrow> ('t::linorder) option) \<Rightarrow> 't \<Rightarrow> 't \<Rightarrow> response option \<Rightarrow> nat list" where
  "emitted_indices fromisoformat start_date end_date weather_json =
     filter (\<lambda>i. in_window fromisoformat start_date end_date
                    (hourly_array weather_json ''time'' ! i))
       [0..<length (hourly_array weather_json ''time'')]"

text \<open>
  A stand-in for \<^verbatim>\<open>datetime.fromisoformat\<close> on the timestamps of the worked scenario:
  a naive datetime is the tuple (year, month, day, hour, minute), ordered
  lexicographically as Python orders naive datetimes.
\<close>

definition scenario_fromisoformat :: "string \<Rightarrow> (nat \<times> nat \<times> nat \<times> nat \<times> nat) option" where
  "scenario_fromisoformat s =
     (if s = ''2023-12-31T23:00'' then Some (2023, 12, 31, 23, 0)
      else if s = ''2024-01-01T00:00'' then Some (2024, 1, 1, 0, 0)
      else if s = ''2024-01-02T00:00'' then Some (2024, 1, 2, 0, 0)
      else if s = ''2024-01-02T01:00'' then Some (2024, 1, 2, 1, 0)
      else None)"

definition scenario_outlet :: outlet where
  "scenario_outlet = \<lparr>o_id = 1, o_name = ''A'', o_latitude = 40, o_longitude = - 75\<rparr>"

definition scenario_response :: "json list \<Rightarrow> json list \<Rightarrow> response option" where
  "scenario_response winds temps =
     Some \<lparr>hourly = Some
       [(''time'', [JStr ''2023-12-31T23:00'', JStr ''2024-01-01T00:00'',
                    JStr ''2024-01-02T00:00'', JStr ''2024-01-02T01:00'']),
        (''wind_speed_10m'', winds),
        (''temperature_2m'', temps)]\<rparr>"

section \<open>Properties of load\_outlets\<close>

lemma load_outlets_step_cases:
  assumes "load_outlets_step pyint pyfloat acc row = Inr acc'"
  shows "(acc' = acc \<and> sentinel pyfloat row \<and> (\<exists>k. bears pyint k row))
       \<or> (acc' = acc \<and> located pyfloat row \<and> (\<exists>k. bears pyint k row \<and> map_of acc k \<noteq> None))
       \<or> (\<exists>k out. bears pyint k row \<and> located pyfloat row \<and> map_of acc k = None
             \<and> outlet_of_row pyint pyfloat row = Some out \<and> o_id out = k
             \<and> \<not> (o_latitude out = 0 \<and> o_longitude out = 0)
             \<and> acc' = acc @ [(k, out)])"
  using assms
  unfolding load_outlets_step_def sentinel_def located_def bears_def outlet_of_row_def
  by (auto split: sum.splits option.splits if_splits)

lemma bears_unique: "bears pyint k row \<Longrightarrow> bears pyint k' row \<Longrightarrow> k = k'"
  by (simp add: bears_def)

lemma sentinel_not_located: "sentinel pyfloat row \<Longrightarrow> \<not> located pyfloat row"
  by (simp add: sentinel_def located_def)

lemma load_outlets_loop_map_of:
  "load_outlets_loop pyint pyfloat acc rows = Inr res \<Longrightarrow>
   map_of res k =
     (case map_of acc k of
        Some out \<Rightarrow> Some out
      | None \<Rightarrow>
          (case find (\<lambda>r. bears pyint k r \<and> located pyfloat r) rows of
             None \<Rightarrow> None
           | Some r \<Rightarrow> outlet_of_row pyint pyfloat r))"
proof (induction rows arbitrary: acc)
  case Nil
  then show ?case by (simp split: option.splits)
next
  case (Cons row rows)
  from Cons.prems obtain acc' where
    step: "load_outlets_step pyint pyfloat acc row = Inr acc'" and
    rest: "load_outlets_loop pyint pyfloat acc' rows = Inr res"
    by (auto split: sum.splits)
  note ih = Cons.IH [OF rest]
  from load_outlets_step_cases [OF step] show ?case
  proof (elim disjE conjE exE)
    fix k' assume "acc' = acc" "sentinel pyfloat row" "bears pyint k' row"
    then show ?thesis using ih sentinel_not_located by (auto split: option.splits)
  next
    fix k' assume "acc' = acc" "located pyfloat row" "bears pyint k' row" "map_of acc k' \<noteq> None"
    then show ?thesis using ih bears_unique [of pyint k row k']
      by (auto split: option.splits)
  next
    fix k' out
    assume a: "bears pyint k' row" "located pyfloat row" "map_of acc k' = None"
      "outlet_of_row pyint pyfloat row = Some out" "o_id out = k'" "acc' = acc @ [(k', out)]"
    show ?thesis
    proof (cases "k = k'")
      case True
      with a ih show ?thesis by (simp add: map_add_def split: option.splits)
    next
      case False
      with a ih bears_unique [of pyint k row k'] show ?thesis
        by (auto simp: map_add_def split: option.splits)
    qed
  qed
qed

lemma load_outlets_loop_wf:
  "load_outlets_loop pyint pyfloat acc rows = Inr res \<Longrightarrow> wf_outlets acc \<Longrightarrow> wf_outlets res"
proof (induction rows arbitrary: acc)
  case Nil
  then show ?case by simp
next
  case (Cons row rows)
  from Cons.prems obtain acc' where
    step: "load_outlets_step pyint pyfloat acc row = Inr acc'" and
    rest: "load_outlets_loop pyint pyfloat acc' rows = Inr res"
    by (auto split: sum.splits)
  have "wf_outlets acc'"
    using load_outlets_step_cases [OF step] Cons.prems(2)
    by (auto simp: wf_outlets_def map_of_eq_None_iff)
  then show ?case using Cons.IH [OF rest] by simp
qed

lemma filter_by_id_map_of:
  "wf_outlets acc \<Longrightarrow>
   filter (\<lambda>out. o_id out = k) (map snd acc) =
     (case map_of acc k of None \<Rightarrow> [] | Some out \<Rightarrow> [out])"
proof (induction acc)
  case Nil
  then show ?case by simp
next
  case (Cons p acc)
  obtain k' out where p: "p = (k', out)" by (cases p)
  from Cons.prems have wf: "wf_outlets acc" and key: "o_id out = k'" and
    fresh: "k' \<notin> fst ` set acc"
    by (auto simp: wf_outlets_def p)
  show ?case
  proof (cases "k = k'")
    case True
    from fresh have "map_of acc k' = None" by (simp add: map_of_eq_None_iff)
    with True key Cons.IH [OF wf] show ?thesis by (simp add: p)
  next
    case False
    with key Cons.IH [OF wf] show ?thesis by (simp add: p)
  qed
qed


lemma load_outlets_loop_first_located:
  "load_outlets_loop pyint pyfloat acc rows = Inr res \<Longrightarrow> map_of acc k = None \<Longrightarrow>
   find (\<lambda>r. bears pyint k r \<and> located pyfloat r) rows = Some r \<Longrightarrow>
   outlet_of_row pyint pyfloat r \<noteq> None"
proof (induction rows arbitrary: acc)
  case Nil
  then show ?case by simp
next
  case (Cons row rows)
  from Cons.prems(1) obtain acc' where
    step: "load_outlets_step pyint pyfloat acc row = Inr acc'" and
    rest: "load_outlets_loop pyint pyfloat acc' rows = Inr res"
    by (auto split: sum.splits)
  show ?case
  proof (cases "bears pyint k row \<and> located pyfloat row")
    case True
    with Cons.prems(3) have "r = row" by simp
    with True Cons.prems(2) load_outlets_step_cases [OF step] show ?thesis
      by (auto dest: bears_unique sentinel_not_located)
  next
    case False
    with Cons.prems(3) have found: "find (\<lambda>r. bears pyint k r \<and> located pyfloat r) rows = Some r"
      by simp
    from False Cons.prems(2) load_outlets_step_cases [OF step] have "map_of acc' k = None"
      by (auto simp: map_add_def split: option.splits)
    from Cons.IH [OF rest this found] show ?thesis .
  qed
qed

lemma load_outlets_by_id:
  assumes "load_outlets pyint pyfloat rows = Inr outs"
  shows "filter (\<lambda>out. o_id out = k) outs =
     (case find (\<lambda>r. bears pyint k r \<and> located pyfloat r) rows of
        None \<Rightarrow> []
      | Some r \<Rightarrow> (case outlet_of_row pyint pyfloat r of None \<Rightarrow> [] | Some out \<Rightarrow> [out]))"
    and "find (\<lambda>r. bears pyint k r \<and> located pyfloat r) rows = Some r \<Longrightarrow>
         outlet_of_row pyint pyfloat r \<noteq> None"
proof -
  from assms obtain res where
    loop: "load_outlets_loop pyint pyfloat [] rows = Inr res" and outs: "outs = map snd res"
    by (auto simp: load_outlets_def split: sum.splits)
  have "wf_outlets []" by (simp add: wf_outlets_def)
  with loop have wf: "wf_outlets res" by (rule load_outlets_loop_wf)
  show "filter (\<lambda>out. o_id out = k) outs =
     (case find (\<lambda>r. bears pyint k r \<and> located pyfloat r) rows of
        None \<Rightarrow> []
      | Some r \<Rightarrow> (case outlet_of_row pyint pyfloat r of None \<Rightarrow> [] | Some out \<Rightarrow> [out]))"
    unfolding outs filter_by_id_map_of [OF wf] load_outlets_loop_map_of [OF loop]
    by (simp split: option.splits)
  show "find (\<lambda>r. bears pyint k r \<and> located pyfloat r) rows = Some r \<Longrightarrow>
         outlet_of_row pyint pyfloat r \<noteq> None"
    using load_outlets_loop_first_located [OF loop] by simp
qed

lemma outlet_of_row_SomeD:
  "outlet_of_row pyint pyfloat r = Some out \<Longrightarrow>
     row_id pyint r = Inr (o_id out) \<and> map_of r ''name'' = Some (o_name out) \<and>
     coord pyfloat r ''latitude'' = Inr (o_latitude out) \<and>
     coord pyfloat r ''longitude'' = Inr (o_longitude out)"
  by (auto simp: outlet_of_row_def split: sum.splits option.splits)

lemma load_outlets_no_sentinel:
  assumes "load_outlets pyint pyfloat rows = Inr outs" and "out \<in> set outs"
  shows "\<not> (o_latitude out = 0 \<and> o_longitude out = 0)"
proof -
  from assms obtain res where
    loop: "load_outlets_loop pyint pyfloat [] rows = Inr res" and outs: "outs = map snd res"
    by (auto simp: load_outlets_def split: sum.splits)
  have "wf_outlets []" by (simp add: wf_outlets_def)
  with loop have wf: "wf_outlets res" by (rule load_outlets_loop_wf)
  with assms(2) outs show ?thesis
    by (auto simp: wf_outlets_def list_all_iff)
qed

lemma load_outlets_loop_append:
  "load_outlets_loop pyint pyfloat acc (xs @ ys) =
     (case load_outlets_loop pyint pyfloat acc xs of
        Inl e \<Rightarrow> Inl e
      | Inr acc' \<Rightarrow> load_outlets_loop pyint pyfloat acc' ys)"
  by (induction xs arbitrary: acc) (auto split: sum.splits)

lemma load_outlets_step_sentinel:
  "sentinel pyfloat row \<Longrightarrow> load_outlets_step pyint pyfloat acc row = Inr acc' \<Longrightarrow> acc' = acc"
  by (auto dest!: load_outlets_step_cases dest: sentinel_not_located)

lemma load_outlets_drop_sentinel:
  assumes "load_outlets pyint pyfloat (xs @ row # ys) = Inr outs" and "sentinel pyfloat row"
  shows "load_outlets pyint pyfloat (xs @ ys) = Inr outs"
proof -
  from assms(1) obtain res where
    loop: "load_outlets_loop pyint pyfloat [] (xs @ row # ys) = Inr res" and
    outs: "outs = map snd res"
    by (auto simp: load_outlets_def split: sum.splits)
  from loop obtain acc acc' where
    a: "load_outlets_loop pyint pyfloat [] xs = Inr acc" and
    b: "load_outlets_step pyint pyfloat acc row = Inr acc'" and
    c: "load_outlets_loop pyint pyfloat acc' ys = Inr res"
    by (auto simp: load_outlets_loop_append split: sum.splits)
  from load_outlets_step_sentinel [OF assms(2) b] have "acc' = acc" .
  with a c have "load_outlets_loop pyint pyfloat [] (xs @ ys) = Inr res"
    by (simp add: load_outlets_loop_append)
  with outs show ?thesis by (simp add: load_outlets_def)
qed


lemmas scenario_simps =
  load_outlets_def load_outlets_step_def row_id_def coord_def scenario_int_def
  scenario_float_def mk_row_def bears_def located_def sentinel_def outlet_of_row_def

text \<open>
  Claim C2, as amended. Whenever \<open>load_outlets\<close> returns, the catalog holds at most one
  outlet per id: none when no row bearing the id has a location other than
  \<open>(0.0, 0.0)\<close>, and otherwise exactly one, whose name, latitude and longitude are those
  of the first row bearing the id that has such a location.
\<close>

theorem load_outlets_first_located_wins:
  assumes "load_outlets pyint pyfloat rows = Inr outs"
  shows "case find (\<lambda>r. bears pyint k r \<and> located pyfloat r) rows of
           None \<Rightarrow> filter (\<lambda>out. o_id out = k) outs = []
         | Some r \<Rightarrow>
             (\<exists>out. filter (\<lambda>out. o_id out = k) outs = [out] \<and>
                map_of r ''name'' = Some (o_name out) \<and>
                coord pyfloat r ''latitude'' = Inr (o_latitude out) \<and>
                coord pyfloat r ''longitude'' = Inr (o_longitude out))"
proof (cases "find (\<lambda>r. bears pyint k r \<and> located pyfloat r) rows")
  case None
  with load_outlets_by_id(1) [OF assms, of k] show ?thesis by simp
next
  case (Some r)
  from load_outlets_by_id(2) [OF assms Some] obtain out where
    out: "outlet_of_row pyint pyfloat r = Some out" by auto
  with Some load_outlets_by_id(1) [OF assms, of k]
  have "filter (\<lambda>out. o_id out = k) outs = [out]" by simp
  with Some outlet_of_row_SomeD [OF out] show ?thesis by auto
qed

text \<open>
  The scenario of claim C2: the rows \<open>(1, A, 40.0, -75.0)\<close> and \<open>(1, B, 41.0, -76.0)\<close>
  give exactly one outlet, named A at latitude 40.
\<close>

theorem load_outlets_first_located_wins_witness:
  "load_outlets scenario_int scenario_float
     [mk_row ''1'' ''A'' ''40.0'' ''-75.0'', mk_row ''1'' ''B'' ''41.0'' ''-76.0''] =
     Inr [\<lparr>o_id = 1, o_name = ''A'', o_latitude = 40, o_longitude = - 75\<rparr>] \<and>
   find (\<lambda>r. bears scenario_int 1 r \<and> located scenario_float r)
     [mk_row ''1'' ''A'' ''40.0'' ''-75.0'', mk_row ''1'' ''B'' ''41.0'' ''-76.0''] =
     Some (mk_row ''1'' ''A'' ''40.0'' ''-75.0'') \<and>
   filter (\<lambda>out. o_id out = 1)
     [\<lparr>o_id = 1, o_name = ''A'', o_latitude = 40, o_longitude = - 75\<rparr>] =
     [\<lparr>o_id = 1, o_name = ''A'', o_latitude = 40, o_longitude = - 75\<rparr>]"
proof -
  have h: "load_outlets scenario_int scenario_float
     [mk_row ''1'' ''A'' ''40.0'' ''-75.0'', mk_row ''1'' ''B'' ''41.0'' ''-76.0''] =
     Inr [\<lparr>o_id = 1, o_name = ''A'', o_latitude = 40, o_longitude = - 75\<rparr>]"
    by (simp add: scenario_simps)
  show ?thesis
    using h load_outlets_first_located_wins [OF h, of 1]
    by (simp add: scenario_simps)
qed

text \<open>
  Claim C2 as stated fails: the first row bearing id 2 is named A and has the sentinel
  location, and the one outlet retained for id 2 is the one of the second row, named B.
\<close>

theorem load_outlets_first_row_wins_counterexample:
  "load_outlets scenario_int scenario_float
     [mk_row ''2'' ''A'' ''0.0'' ''0.0'', mk_row ''2'' ''B'' ''41.0'' ''-76.0''] =
     Inr [\<lparr>o_id = 2, o_name = ''B'', o_latitude = 41, o_longitude = - 76\<rparr>] \<and>
   find (bears scenario_int 2)
     [mk_row ''2'' ''A'' ''0.0'' ''0.0'', mk_row ''2'' ''B'' ''41.0'' ''-76.0''] =
     Some (mk_row ''2'' ''A'' ''0.0'' ''0.0'') \<and>
   map_of (mk_row ''2'' ''A'' ''0.0'' ''0.0'') ''name'' = Some ''A'' \<and>
   ''A'' \<noteq> ''B''"
  by (simp add: scenario_simps)

text \<open>
  Claim C7. A row whose latitude and longitude are both \<open>0.0\<close> after parsing (an empty
  cell counts as \<open>0.0\<close>) leaves no outlet in the returned catalog: no returned outlet has
  the sentinel location, the outlet the row describes is not in the catalog, and the
  catalog is the one obtained from the source without that row.
\<close>

theorem load_outlets_excludes_sentinel:
  assumes "load_outlets pyint pyfloat (xs @ row # ys) = Inr outs"
    and "sentinel pyfloat row"
  shows "list_all (\<lambda>out. \<not> (o_latitude out = 0 \<and> o_longitude out = 0)) outs \<and>
         outlet_of_row pyint pyfloat row \<notin> Some ` set outs \<and>
         load_outlets pyint pyfloat (xs @ ys) = Inr outs"
proof (intro conjI)
  show nz: "list_all (\<lambda>out. \<not> (o_latitude out = 0 \<and> o_longitude out = 0)) outs"
    using load_outlets_no_sentinel [OF assms(1)] by (auto simp: list_all_iff)
  show "outlet_of_row pyint pyfloat row \<notin> Some ` set outs"
  proof
    assume "outlet_of_row pyint pyfloat row \<in> Some ` set outs"
    then obtain out where out: "out \<in> set outs" "outlet_of_row pyint pyfloat row = Some out"
      by auto
    from outlet_of_row_SomeD [OF out(2)] assms(2)
    have "o_latitude out = 0 \<and> o_longitude out = 0" by (simp add: sentinel_def)
    with load_outlets_no_sentinel [OF assms(1) out(1)] show False by simp
  qed
  show "load_outlets pyint pyfloat (xs @ ys) = Inr outs"
    using assms by (rule load_outlets_drop_sentinel)
qed

text \<open>A catalog whose first row has empty coordinates.\<close>

theorem load_outlets_excludes_sentinel_witness:
  "load_outlets scenario_int scenario_float
     ([] @ mk_row ''1'' ''A'' [] [] # [mk_row ''2'' ''B'' ''41.0'' ''-76.0'']) =
     Inr [\<lparr>o_id = 2, o_name = ''B'', o_latitude = 41, o_longitude = - 76\<rparr>] \<and>
   sentinel scenario_float (mk_row ''1'' ''A'' [] []) \<and>
   outlet_of_row scenario_int scenario_float (mk_row ''1'' ''A'' [] []) =
     Some \<lparr>o_id = 1, o_name = ''A'', o_latitude = 0, o_longitude = 0\<rparr> \<and>
   outlet_of_row scenario_int scenario_float (mk_row ''1'' ''A'' [] []) \<notin>
     Some ` set [\<lparr>o_id = 2, o_name = ''B'', o_latitude = 41, o_longitude = - 76\<rparr>] \<and>
   load_outlets scenario_int scenario_float ([] @ [mk_row ''2'' ''B'' ''41.0'' ''-76.0'']) =
     Inr [\<lparr>o_id = 2, o_name = ''B'', o_latitude = 41, o_longitude = - 76\<rparr>]"
proof -
  have h: "load_outlets scenario_int scenario_float
     ([] @ mk_row ''1'' ''A'' [] [] # [mk_row ''2'' ''B'' ''41.0'' ''-76.0'']) =
     Inr [\<lparr>o_id = 2, o_name = ''B'', o_latitude = 41, o_longitude = - 76\<rparr>]"
    by (simp add: scenario_simps)
  have s: "sentinel scenario_float (mk_row ''1'' ''A'' [] [])"
    by (simp add: scenario_simps)
  show ?thesis
    using h s load_outlets_excludes_sentinel [OF h s]
    by (simp add: scenario_simps)
qed

text \<open>
  Claim C10. When the first row bearing an id has the sentinel location, it is skipped
  before deduplication: the first later row with that id and a valid location is another
  row, and its outlet is the one retained for the id.
\<close>

theorem load_outlets_sentinel_then_located:
  assumes "load_outlets pyint pyfloat rows = Inr outs"
    and "find (bears pyint k) rows = Some r1"
    and "sentinel pyfloat r1"
    and "find (\<lambda>r. bears pyint k r \<and> located pyfloat r) rows = Some r2"
  shows "r2 \<noteq> r1 \<and>
         (\<exists>out. outlet_of_row pyint pyfloat r2 = Some out \<and> out \<in> set outs \<and>
            filter (\<lambda>out. o_id out = k) outs = [out])"
proof
  from assms(4) have "located pyfloat r2" by (auto simp: find_Some_iff)
  with assms(3) show "r2 \<noteq> r1" by (auto dest: sentinel_not_located)
  from load_outlets_by_id(2) [OF assms(1,4)] obtain out where
    out: "outlet_of_row pyint pyfloat r2 = Some out" by auto
  with assms(4) load_outlets_by_id(1) [OF assms(1), of k]
  have f: "filter (\<lambda>out. o_id out = k) outs = [out]" by simp
  then have "out \<in> set (filter (\<lambda>out. o_id out = k) outs)" by simp
  then have "out \<in> set outs" by simp
  with out f show "\<exists>out. outlet_of_row pyint pyfloat r2 = Some out \<and> out \<in> set outs \<and>
            filter (\<lambda>out. o_id out = k) outs = [out]" by blast
qed

text \<open>A sentinel row followed by a located row with the same id.\<close>

theorem load_outlets_sentinel_then_located_witness:
  "load_outlets scenario_int scenario_float
     [mk_row ''1'' ''A'' [] [], mk_row ''1'' ''B'' ''41.0'' ''-76.0''] =
     Inr [\<lparr>o_id = 1, o_name = ''B'', o_latitude = 41, o_longitude = - 76\<rparr>] \<and>
   find (bears scenario_int 1)
     [mk_row ''1'' ''A'' [] [], mk_row ''1'' ''B'' ''41.0'' ''-76.0''] =
     Some (mk_row ''1'' ''A'' [] []) \<and>
   sentinel scenario_float (mk_row ''1'' ''A'' [] []) \<and>
   find (\<lambda>r. bears scenario_int 1 r \<and> located scenario_float r)
     [mk_row ''1'' ''A'' [] [], mk_row ''1'' ''B'' ''41.0'' ''-76.0''] =
     Some (mk_row ''1'' ''B'' ''41.0'' ''-76.0'') \<and>
   outlet_of_row scenario_int scenario_float (mk_row ''1'' ''B'' ''41.0'' ''-76.0'') =
     Some \<lparr>o_id = 1, o_name = ''B'', o_latitude = 41, o_longitude = - 76\<rparr>"
proof -
  let ?rows = "[mk_row ''1'' ''A'' [] [], mk_row ''1'' ''B'' ''41.0'' ''-76.0'']"
  have h1: "load_outlets scenario_int scenario_float ?rows =
     Inr [\<lparr>o_id = 1, o_name = ''B'', o_latitude = 41, o_longitude = - 76\<rparr>]"
    by (simp add: scenario_simps)
  have h2: "find (bears scenario_int 1) ?rows = Some (mk_row ''1'' ''A'' [] [])"
    by (simp add: scenario_simps)
  have h3: "sentinel scenario_float (mk_row ''1'' ''A'' [] [])"
    by (simp add: scenario_simps)
  have h4: "find (\<lambda>r. bears scenario_int 1 r \<and> located scenario_float r) ?rows =
     Some (mk_row ''1'' ''B'' ''41.0'' ''-76.0'')"
    by (simp add: scenario_simps)
  show ?thesis
    using h1 h2 h3 h4 load_outlets_sentinel_then_located [OF h1 h2 h3 h4]
    by (simp add: scenario_simps)
qed

end
